theory Spec2Isabelle
  imports Main
begin

section \<open>The rendered page as the browser session reports it\<close>

text \<open>
  The program reads the page only through the browser session: it looks elements up by
  class name, by tag name or by an absolute path, and reads their visible text. An element
  is modelled by its tag, its class attribute, the text the session reports for it, and
  its child elements in document order.
\<close>

datatype elem = Elem (tag: string) (classes: "string list") (elem_text: string) (children: "elem list")

text \<open>
  The exceptions the source raises or names in its handlers, and two faults of the browser
  session that no handler names: a click that another element intercepts, and an element
  that has gone stale by the time it is used.
\<close>

datatype exn =
    NoSuchElementException
  | AttributeError
  | ValueError
  | TypeError
  | ElementClickInterceptedException
  | StaleElementReferenceException

text \<open>All elements below an element, in document order (the element itself excluded).\<close>

fun descendants :: "elem \<Rightarrow> elem list" where
  "descendants (Elem t cs x ch) = concat (map (\<lambda>c. c # descendants c) ch)"

text \<open>\<^verbatim>\<open>e.find_elements(By.CLASS_NAME, cls)\<close>: every match, possibly none; never raises.\<close>

definition find_elements :: "elem \<Rightarrow> string \<Rightarrow> elem list" where
  "find_elements e cls = filter (\<lambda>d. cls \<in> set (classes d)) (descendants e)"

text \<open>\<^verbatim>\<open>e.find_element(By.CLASS_NAME, cls)\<close>: the first match, or NoSuchElementException.\<close>

definition find_element :: "elem \<Rightarrow> string \<Rightarrow> exn + elem" where
  "find_element e cls =
     (case find_elements e cls of [] \<Rightarrow> Inl NoSuchElementException | d # _ \<Rightarrow> Inr d)"

text \<open>\<^verbatim>\<open>e.find_elements(By.TAG_NAME, t)\<close>.\<close>

definition find_elements_by_tag :: "elem \<Rightarrow> string \<Rightarrow> elem list" where
  "find_elements_by_tag e t = filter (\<lambda>d. tag d = t) (descendants e)"

text \<open>
  \<^verbatim>\<open>e.find_elements(By.XPATH, "./div[position()>1]")\<close>: the div children of \<open>e\<close> but the
  first of them.
\<close>

definition div_children_after_first :: "elem \<Rightarrow> elem list" where
  "div_children_after_first e = drop 1 (filter (\<lambda>c. tag c = ''div'') (children e))"

subsection \<open>Python string operations\<close>

text \<open>
  \<^verbatim>\<open>str.strip()\<close> removes leading and trailing whitespace. Strings are byte lists here, so
  the whitespace characters are the ASCII ones of \<^verbatim>\<open>str.isspace\<close>: codes 9 to 13, 28 to 32.
\<close>

definition is_space :: "char \<Rightarrow> bool" where
  "is_space c = (let n = of_char c :: nat in (9 \<le> n \<and> n \<le> 13) \<or> (28 \<le> n \<and> n \<le> 32))"

definition strip :: "string \<Rightarrow> string" where
  "strip s = rev (dropWhile is_space (rev (dropWhile is_space s)))"

text \<open>\<^verbatim>\<open>sep.join(xs)\<close>.\<close>

fun join :: "string \<Rightarrow> string list \<Rightarrow> string" where
  "join sep [] = []"
| "join sep [x] = x"
| "join sep (x # y # ys) = x @ sep @ join sep (y # ys)"

text \<open>The decimal rendering of a non-negative integer, as an f-string prints \<^verbatim>\<open>len(stars)\<close>.\<close>

definition digit_char :: "nat \<Rightarrow> char" where
  "digit_char d = char_of (48 + d)"

fun str_nat :: "nat \<Rightarrow> string" where
  "str_nat n = (if n < 10 then [digit_char n] else str_nat (n div 10) @ [digit_char (n mod 10)])"

declare str_nat.simps [simp del]

section \<open>Configuration constants\<close>

definition REVIEW_CONTAINER_CLASS :: string where "REVIEW_CONTAINER_CLASS = ''jJc9Ad''"
definition REVIEW_TEXT_CLASS :: string where "REVIEW_TEXT_CLASS = ''wiI7pd''"
definition DATE_CLASSES :: "string list" where "DATE_CLASSES = [''rsqaWe'', ''xRkPPb'']"
definition RATING_TEXT_CLASS :: string where "RATING_TEXT_CLASS = ''fzvQIb''"
definition STAR_CONTAINER_CLASS :: string where "STAR_CONTAINER_CLASS = ''kvMYJc''"
definition FILLED_STAR_CLASS :: string where "FILLED_STAR_CLASS = ''elGi1d''"
definition REVIEW_BLOCK_CLASS :: string where "REVIEW_BLOCK_CLASS = ''MyEned''"
definition OWNER_BLOCK_CLASS :: string where "OWNER_BLOCK_CLASS = ''CDe7pd''"
definition SERVICES_PARENT_CLASS :: string where "SERVICES_PARENT_CLASS = ''PBK6be''"
definition SERVICES_ENTRY_CLASS :: string where "SERVICES_ENTRY_CLASS = ''RfDO5c''"

section \<open>Field extraction for one review card\<close>

text \<open>The dictionary appended to \<^verbatim>\<open>reviews\<close>; \<^verbatim>\<open>owner\<close> is \<^verbatim>\<open>None\<close> when no reply was found.\<close>

record review =
  date :: string
  rating :: string
  text_field :: string
  owner :: "string option"

text \<open>
  Step 1: the text of the first \<^verbatim>\<open>wiI7pd\<close> element inside the first \<^verbatim>\<open>MyEned\<close> block, stripped.
  Either lookup may raise; the handler of the source then skips the card.
\<close>

definition user_review_text :: "elem \<Rightarrow> exn + string" where
  "user_review_text rcard =
     (case find_element rcard REVIEW_BLOCK_CLASS of
        Inl e \<Rightarrow> Inl e
      | Inr review_block \<Rightarrow>
          (case find_element review_block REVIEW_TEXT_CLASS of
             Inl e \<Rightarrow> Inl e
           | Inr t \<Rightarrow> Inr (strip (elem_text t))))"

text \<open>
  Step 2: the loop over the service entries. An entry without a \<^verbatim>\<open>RfDO5c\<close> element raises
  and leaves the loop; the handler passes, and the services appended so far stay in the
  list.
\<close>

fun services_loop :: "elem list \<Rightarrow> string list \<Rightarrow> string list" where
  "services_loop [] services = services"
| "services_loop (entry # entries) services =
     (case find_element entry SERVICES_ENTRY_CLASS of
        Inl e \<Rightarrow> services
      | Inr sp \<Rightarrow>
          (let svc = strip (elem_text sp)
           in services_loop entries (if svc \<noteq> [] then services @ [svc] else services)))"

definition collect_services :: "elem \<Rightarrow> string list" where
  "collect_services rcard =
     (case find_element rcard SERVICES_PARENT_CLASS of
        Inl e \<Rightarrow> []
      | Inr svc_wrapper \<Rightarrow> services_loop (div_children_after_first svc_wrapper) [])"

definition with_services :: "string \<Rightarrow> string list \<Rightarrow> string" where
  "with_services review_text services =
     (if services \<noteq> [] then review_text @ '' (Services: '' @ join ''; '' services @ '')''
      else review_text)"

text \<open>
  Step 3: the loop over the date classes. The first class whose element is found gives the
  date and leaves the loop; \<^verbatim>\<open>None\<close> remains when no class is found.
\<close>

fun date_loop :: "elem \<Rightarrow> string list \<Rightarrow> string option" where
  "date_loop rcard [] = None"
| "date_loop rcard (cls # rest) =
     (case find_element rcard cls of
        Inr d \<Rightarrow> Some (strip (elem_text d))
      | Inl e \<Rightarrow> date_loop rcard rest)"

text \<open>Step 4: the rating, with its two fallbacks.\<close>

definition extract_rating :: "elem \<Rightarrow> string" where
  "extract_rating rcard =
     (case find_element rcard RATING_TEXT_CLASS of
        Inr r \<Rightarrow> strip (elem_text r)
      | Inl e \<Rightarrow>
          (case find_element rcard STAR_CONTAINER_CLASS of
             Inr star_container \<Rightarrow>
               str_nat (length (find_elements star_container FILLED_STAR_CLASS)) @ ''/5''
           | Inl e' \<Rightarrow> ''N/A''))"

text \<open>Step 5: the owner's reply.\<close>

definition extract_owner :: "elem \<Rightarrow> string option" where
  "extract_owner rcard =
     (case find_element rcard OWNER_BLOCK_CLASS of
        Inl e \<Rightarrow> None
      | Inr owner_block \<Rightarrow>
          (case find_element owner_block REVIEW_TEXT_CLASS of
             Inl e \<Rightarrow> None
           | Inr t \<Rightarrow> Some (strip (elem_text t))))"

text \<open>
  The body of the loop over the cards (\<open>rcard\<close> is the source's \<^verbatim>\<open>card\<close>): \<open>None\<close> when the
  card is skipped by a \<^verbatim>\<open>continue\<close>, the record otherwise. \<^verbatim>\<open>not review_date\<close> holds for
  \<^verbatim>\<open>None\<close> and for the empty string.
\<close>

definition extract_card :: "elem \<Rightarrow> review option" where
  "extract_card rcard =
     (case user_review_text rcard of
        Inl e \<Rightarrow> None
      | Inr review_text \<Rightarrow>
          (let services = collect_services rcard;
               review_text' = with_services review_text services;
               review_date = date_loop rcard DATE_CLASSES
           in (case review_date of
                 None \<Rightarrow> None
               | Some d \<Rightarrow>
                   if d = [] then None
                   else Some \<lparr>date = d, rating = extract_rating rcard,
                              text_field = review_text', owner = extract_owner rcard\<rparr>)))"

fun harvest :: "elem list \<Rightarrow> review list \<Rightarrow> review list" where
  "harvest [] reviews = reviews"
| "harvest (rcard # rcards) reviews =
     (case extract_card rcard of
        None \<Rightarrow> harvest rcards reviews
      | Some r \<Rightarrow> harvest rcards (reviews @ [r]))"

text \<open>\<^verbatim>\<open>extract_reviews_data\<close>: the cards are every \<^verbatim>\<open>jJc9Ad\<close> element of the document.\<close>

definition extract_reviews_data :: "elem \<Rightarrow> review list" where
  "extract_reviews_data document = harvest (find_elements document REVIEW_CONTAINER_CLASS) []"

section \<open>The page and its absolute paths\<close>

text \<open>
  A page is its document, whose descendants are the elements of the page, the elements
  that the absolute paths of the program resolve to, and the faults of the session: the
  elements on which \<^verbatim>\<open>click()\<close> raises and those whose \<^verbatim>\<open>text\<close> cannot be read, each with the
  exception raised.
  \<^verbatim>\<open>driver.find_element(By.XPATH, p)\<close> raises NoSuchElementException when the path resolves to
  nothing.
\<close>

record page =
  document :: elem
  xpath_table :: "(string \<times> elem) list"
  click_faults :: "(elem \<times> exn) list"
  text_faults :: "(elem \<times> exn) list"

definition find_element_by_xpath :: "page \<Rightarrow> string \<Rightarrow> exn + elem" where
  "find_element_by_xpath pg p =
     (case map_of (xpath_table pg) p of None \<Rightarrow> Inl NoSuchElementException | Some e \<Rightarrow> Inr e)"

text \<open>\<^verbatim>\<open>element.click()\<close>: returns nothing, or raises the fault the page has for the element.\<close>

definition click :: "page \<Rightarrow> elem \<Rightarrow> exn + unit" where
  "click pg e = (case map_of (click_faults pg) e of None \<Rightarrow> Inr () | Some x \<Rightarrow> Inl x)"

text \<open>\<^verbatim>\<open>element.text\<close> read through the session: the text, or the fault the page has for it.\<close>

definition read_text :: "page \<Rightarrow> elem \<Rightarrow> exn + string" where
  "read_text pg e =
     (case map_of (text_faults pg) e of None \<Rightarrow> Inr (elem_text e) | Some x \<Rightarrow> Inl x)"

definition PLACE_TITLE_XPATH :: string where
  "PLACE_TITLE_XPATH =
     ''/html/body/div[1]/div[3]/div[8]/div[9]/div/div/div[1]/div[2]/div/div[1]/div/'' @
     ''div/div[2]/div/div[1]/div[1]/h1''"

definition REVIEWS_COUNT_XPATH :: string where
  "REVIEWS_COUNT_XPATH =
     ''/html/body/div[1]/div[3]/div[8]/div[9]/div/div/div[1]/div[2]/div/div[1]/div/div/div[2]/'' @
     ''div/div[1]/div[2]/div/div[1]/div[2]/span[2]/span/span/span''"

definition REVIEWS_COUNT_XPATH2 :: string where
  "REVIEWS_COUNT_XPATH2 =
     ''/html/body/div[1]/div[3]/div[8]/div[9]/div/div/div[1]/div[2]/div/div[1]/div/div/div[2]/div/div[1]/div[2]/div/div[1]/div[2]/span[2]/span/span''"

definition REVIEW_TAB_BUTTON_XPATH_2 :: string where
  "REVIEW_TAB_BUTTON_XPATH_2 =
     ''/html/body/div[1]/div[3]/div[8]/div[9]/div/div/div[1]/div[2]/div/div[1]/div/div/div[3]/'' @
     ''div/div/button[2]/div[2]/div[2]''"

definition REVIEW_TAB_BUTTON_XPATH_3 :: string where
  "REVIEW_TAB_BUTTON_XPATH_3 =
     ''/html/body/div[1]/div[3]/div[8]/div[9]/div/div/div[1]/div[2]/div/div[1]/div/div/div[3]/'' @
     ''div/div/button[3]/div[2]/div[2]''"

definition CONTAINER_CLASS_RWPXGD :: string where "CONTAINER_CLASS_RWPXGD = ''RWPxGd''"
definition SHOW_MORE_BUTTON_CLASS :: string where "SHOW_MORE_BUTTON_CLASS = ''w8nwRe''"

section \<open>Place title and review count\<close>

text \<open>The handler of \<^verbatim>\<open>get_place_title\<close> catches every exception.\<close>

definition get_place_title :: "page \<Rightarrow> string" where
  "get_place_title pg =
     (case find_element_by_xpath pg PLACE_TITLE_XPATH of
        Inl e \<Rightarrow> ''Unknown Place''
      | Inr title_element \<Rightarrow>
          (case read_text pg title_element of
             Inl e \<Rightarrow> ''Unknown Place''
           | Inr t \<Rightarrow>
               (let title = strip t
                in if title \<noteq> [] then title else ''Unknown Place'')))"

text \<open>
  \<^verbatim>\<open>re.search(r"\d+", text)\<close>: the first maximal run of decimal digits (the ASCII digits
  here), \<^verbatim>\<open>None\<close> when the text has no digit. \<^verbatim>\<open>int\<close> reads the run in base ten.
\<close>

definition is_digit :: "char \<Rightarrow> bool" where
  "is_digit c = (let n = of_char c :: nat in 48 \<le> n \<and> n \<le> 57)"

definition re_search_digits :: "string \<Rightarrow> string option" where
  "re_search_digits s =
     (case dropWhile (\<lambda>c. \<not> is_digit c) s of
        [] \<Rightarrow> None
      | c # cs \<Rightarrow> Some (takeWhile is_digit (c # cs)))"

definition int_of_digits :: "string \<Rightarrow> int" where
  "int_of_digits ds = foldl (\<lambda>a c. 10 * a + (int (of_char c) - 48)) 0 ds"

text \<open>
  \<^verbatim>\<open>int(m)\<close> on a run of digits: CPython refuses a string of more than 4300 digits with
  ValueError (its default limit for the conversion), and reads any shorter run.
\<close>

definition py_int :: "string \<Rightarrow> exn + int" where
  "py_int m = (if length m > 4300 then Inl ValueError else Inr (int_of_digits m))"

text \<open>
  One attempt of the probe: find the element, click it, read its text, parse the first
  integer. The lookup, the click and the reading of the text may each raise;
  \<^verbatim>\<open>.group()\<close> on \<^verbatim>\<open>None\<close> raises AttributeError.
\<close>

definition read_count :: "page \<Rightarrow> string \<Rightarrow> exn + int" where
  "read_count pg xp =
     (case find_element_by_xpath pg xp of
        Inl e \<Rightarrow> Inl e
      | Inr element \<Rightarrow>
          (case click pg element of
             Inl e \<Rightarrow> Inl e
           | Inr u \<Rightarrow>
               (case read_text pg element of
                  Inl e \<Rightarrow> Inl e
                | Inr t \<Rightarrow>
                    (case re_search_digits t of
                       None \<Rightarrow> Inl AttributeError
                     | Some m \<Rightarrow> py_int m))))"

text \<open>
  The inner handler catches everything and tries the second path; the outer handler
  catches the three named exceptions and returns \<^verbatim>\<open>None\<close>, anything else propagates.
\<close>

definition get_total_reviews :: "page \<Rightarrow> exn + int option" where
  "get_total_reviews pg =
     (case read_count pg REVIEWS_COUNT_XPATH of
        Inr number \<Rightarrow> Inr (Some number)
      | Inl e \<Rightarrow>
          (case read_count pg REVIEWS_COUNT_XPATH2 of
             Inr number \<Rightarrow> Inr (Some number)
           | Inl e' \<Rightarrow>
               if e' = NoSuchElementException \<or> e' = AttributeError \<or> e' = ValueError
               then Inr None else Inl e'))"

section \<open>Tab resolver\<close>

text \<open>
  The effect of \<^verbatim>\<open>click_review_tab\<close> is the click: the result is the element on which the
  click succeeded, \<open>None\<close> when a lookup or the click raised and the handler, which catches
  every exception, only logged it. \<open>buttons\<close> are all the button elements below the
  container, at any depth.
\<close>

definition click_review_tab :: "page \<Rightarrow> elem option" where
  "click_review_tab pg =
     (case find_element (document pg) CONTAINER_CLASS_RWPXGD of
        Inl e \<Rightarrow> None
      | Inr container \<Rightarrow>
          (let buttons = find_elements_by_tag container ''button''
           in (case (if length buttons = 3
                     then find_element_by_xpath pg REVIEW_TAB_BUTTON_XPATH_2
                     else find_element_by_xpath pg REVIEW_TAB_BUTTON_XPATH_3) of
                 Inl e \<Rightarrow> None
               | Inr review_button \<Rightarrow>
                   (case click pg review_button of
                      Inl e \<Rightarrow> None
                    | Inr u \<Rightarrow> Some review_button))))"

section \<open>Convergent scroll loader\<close>

text \<open>
  \<^verbatim>\<open>total_reviews\<close> is a Python value that may be \<^verbatim>\<open>None\<close>; \<^verbatim>\<open>None // 10\<close> raises TypeError.
  Python's \<^verbatim>\<open>//\<close> on integers is the floor division \<open>div\<close>.
\<close>

definition batches_of :: "int option \<Rightarrow> exn + int" where
  "batches_of total_reviews =
     (case total_reviews of
        None \<Rightarrow> Inl TypeError
      | Some n \<Rightarrow> Inr (max ((n div 10) + 2) 5))"

text \<open>
  The loop over \<^verbatim>\<open>range(batches)\<close>. \<open>height i\<close> is the extent the session measures in the
  iteration with index \<open>i\<close>, after it has scrolled. The result lists the extents measured,
  one for each iteration performed, and tells whether the loop was left by \<^verbatim>\<open>break\<close>.
\<close>

fun scroll_loop :: "(nat \<Rightarrow> int) \<Rightarrow> nat list \<Rightarrow> int \<Rightarrow> int list \<times> bool" where
  "scroll_loop height [] last_height = ([], False)"
| "scroll_loop height (i # is) last_height =
     (let new_height = height i
      in if new_height = last_height then ([new_height], True)
         else (case scroll_loop height is new_height of
                 (hs, stopped) \<Rightarrow> (new_height # hs, stopped)))"

definition scroll_to_load_reviews :: "(nat \<Rightarrow> int) \<Rightarrow> int option \<Rightarrow> exn + int list \<times> bool" where
  "scroll_to_load_reviews height total_reviews =
     (case batches_of total_reviews of
        Inl e \<Rightarrow> Inl e
      | Inr batches \<Rightarrow> Inr (scroll_loop height [0..<nat batches] 0))"

section \<open>Session orchestrator\<close>

text \<open>\<^verbatim>\<open>expand_show_more_buttons\<close> clicks every \<^verbatim>\<open>w8nwRe\<close> element; the result is the list clicked.\<close>

definition expand_show_more_buttons :: "page \<Rightarrow> elem list" where
  "expand_show_more_buttons pg = find_elements (document pg) SHOW_MORE_BUTTON_CLASS"

text \<open>
  A session is what the browser shows during one pass: the page after navigation, the
  page once the reviews panel is open, and the extents measured while scrolling.
\<close>

record session =
  landing :: page
  panel :: page
  heights :: "nat \<Rightarrow> int"

text \<open>
  What \<^verbatim>\<open>main\<close> does after the driver is created, in order: the driver actions, the hand-off
  to the persistence step, and the message of the pass without reviews. The title and the
  count are read on every pass; their results decide the events and are not listed, nor
  are the banner lines printed around the title.
\<close>

datatype event =
    NavigateToUrl
  | ClickReviewTab "elem option"
  | ScrollToLoadReviews "int list" bool
  | ExpandShowMoreButtons "elem list"
  | ExtractReviewsData "review list"
  | SaveReviewsToFile "review list" string
  | Print string
  | DriverQuit

text \<open>\<^verbatim>\<open>if total_reviews:\<close> is false for \<^verbatim>\<open>None\<close> and for \<^verbatim>\<open>0\<close>.\<close>

definition truthy :: "int option \<Rightarrow> bool" where
  "truthy v = (case v of None \<Rightarrow> False | Some n \<Rightarrow> n \<noteq> 0)"

text \<open>
  \<^verbatim>\<open>main\<close>: the exception that leaves it, if any, and the events. The \<^verbatim>\<open>finally\<close> clause quits
  the driver on every path.
\<close>

definition main :: "session \<Rightarrow> exn option \<times> event list" where
  "main s =
     (let place_title = get_place_title (landing s)
      in (case get_total_reviews (landing s) of
            Inl e \<Rightarrow> (Some e, [NavigateToUrl, DriverQuit])
          | Inr total_reviews \<Rightarrow>
              if truthy total_reviews then
                (let tab = ClickReviewTab (click_review_tab (panel s))
                 in (case scroll_to_load_reviews (heights s) total_reviews of
                       Inl e \<Rightarrow> (Some e, [NavigateToUrl, tab, DriverQuit])
                     | Inr (hs, stopped) \<Rightarrow>
                         (let reviews_data = extract_reviews_data (document (panel s))
                          in (None,
                              [NavigateToUrl, tab, ScrollToLoadReviews hs stopped,
                               ExpandShowMoreButtons (expand_show_more_buttons (panel s)),
                               ExtractReviewsData reviews_data, DriverQuit,
                               SaveReviewsToFile reviews_data place_title, DriverQuit]))))
              else (None, [NavigateToUrl, Print ''No reviews found.'', DriverQuit])))"

section \<open>Readings of the specification that differ from the code\<close>


text \<open>
  The specification's wording of the star rating: a fraction \<open>N/D\<close> of decimal numbers whose
  denominator \<open>D\<close> is the number of filled stars counted. \<open>rating_as_specified\<close> is the
  specification's list of the three shapes a rating may have.
\<close>

definition is_fraction_over :: "nat \<Rightarrow> string \<Rightarrow> bool" where
  "is_fraction_over d s =
     (let num = takeWhile (\<lambda>c. c \<noteq> CHR ''/'') s;
          rest = dropWhile (\<lambda>c. c \<noteq> CHR ''/'') s
      in num \<noteq> [] \<and> list_all is_digit num \<and> rest = CHR ''/'' # str_nat d)"

definition rating_as_specified :: "elem \<Rightarrow> string \<Rightarrow> bool" where
  "rating_as_specified rcard r =
     ((case find_element rcard RATING_TEXT_CLASS of
         Inr e \<Rightarrow> r = strip (elem_text e) | Inl x \<Rightarrow> False)
      \<or> (case find_element rcard STAR_CONTAINER_CLASS of
            Inr star_container \<Rightarrow>
              is_fraction_over (length (find_elements star_container FILLED_STAR_CLASS)) r
          | Inl x \<Rightarrow> False)
      \<or> r = ''N/A'')"


section \<open>Example pages\<close>

definition span :: "string \<Rightarrow> string \<Rightarrow> elem" where
  "span cls t = Elem ''span'' [cls] t []"

definition card_full :: elem where
  "card_full = Elem ''div'' [''jJc9Ad''] []
     [Elem ''div'' [''MyEned''] [] [span ''wiI7pd'' ''Great food''],
      Elem ''div'' [''PBK6be''] []
        [Elem ''div'' [] ''Services'' [], Elem ''div'' [] [] [span ''RfDO5c'' ''Delivery'']],
      span ''rsqaWe'' ''2 days ago'',
      Elem ''span'' [''kvMYJc''] []
        [span ''elGi1d'' [], span ''elGi1d'' [], span ''elGi1d'' [], span ''elGi1d'' [],
         span ''gCDhJd'' []],
      Elem ''div'' [''CDe7pd''] [] [span ''wiI7pd'' ''Thanks!'']]"

definition card_no_text :: elem where
  "card_no_text = Elem ''div'' [''jJc9Ad''] []
     [span ''rsqaWe'' ''a week ago'', span ''fzvQIb'' ''5/5'']"

definition doc_two_cards :: elem where
  "doc_two_cards = Elem ''body'' [] [] [card_full, card_no_text]"

definition card_empty_text :: elem where
  "card_empty_text = Elem ''div'' [''jJc9Ad''] []
     [Elem ''div'' [''MyEned''] [] [span ''wiI7pd'' []],
      span ''rsqaWe'' ''2 days ago'']"

definition doc_empty_text :: elem where
  "doc_empty_text = Elem ''body'' [] [] [card_empty_text]"

definition card_no_date :: elem where
  "card_no_date = Elem ''div'' [''jJc9Ad''] []
     [Elem ''div'' [''MyEned''] [] [span ''wiI7pd'' ''Nice place''],
      span ''fzvQIb'' ''4/5'']"

definition doc_no_date :: elem where
  "doc_no_date = Elem ''body'' [] [] [card_no_date, card_full]"



definition card_three_services :: elem where
  "card_three_services = Elem ''div'' [''jJc9Ad''] []
     [Elem ''div'' [''MyEned''] [] [span ''wiI7pd'' ''Quick''],
      Elem ''div'' [''PBK6be''] []
        [Elem ''div'' [] ''Services'' [],
         Elem ''div'' [] [] [span ''RfDO5c'' ''a''],
         Elem ''div'' [] [] [span ''RfDO5c'' '' b ''],
         Elem ''div'' [] [] [span ''RfDO5c'' ''c'']],
      span ''rsqaWe'' ''a month ago'']"










definition page_no_count :: page where
  "page_no_count =
     \<lparr>document = Elem ''body'' [] [] [],
      xpath_table = [(PLACE_TITLE_XPATH, Elem ''h1'' [] ''Corner Cafe'' [])],
      click_faults = [], text_faults = []\<rparr>"

definition page_zero_count :: page where
  "page_zero_count =
     \<lparr>document = Elem ''body'' [] [] [],
      xpath_table = [(PLACE_TITLE_XPATH, Elem ''h1'' [] ''Corner Cafe'' []),
                     (REVIEWS_COUNT_XPATH, Elem ''span'' [] ''0 reviews'' [])],
      click_faults = [], text_faults = []\<rparr>"

definition page_count_23 :: page where
  "page_count_23 =
     \<lparr>document = Elem ''body'' [] [] [],
      xpath_table = [(PLACE_TITLE_XPATH, Elem ''h1'' [] ''Corner Cafe'' []),
                     (REVIEWS_COUNT_XPATH2, Elem ''span'' [] ''(23)'' [])],
      click_faults = [], text_faults = []\<rparr>"



definition session_no_count :: session where
  "session_no_count =
     \<lparr>landing = page_no_count, panel = page_no_count, heights = (\<lambda>i. 0)\<rparr>"

definition session_zero_count :: session where
  "session_zero_count =
     \<lparr>landing = page_zero_count, panel = page_zero_count, heights = (\<lambda>i. 0)\<rparr>"

definition session_23 :: session where
  "session_23 =
     \<lparr>landing = page_count_23,
      panel = \<lparr>document = doc_two_cards, xpath_table = [],
      click_faults = [], text_faults = []\<rparr>,
      heights = (\<lambda>i. if i = 0 then 900 else 1800)\<rparr>"

section \<open>Card harvester: shared facts\<close>

lemma harvest_map_filter: "harvest cs acc = acc @ List.map_filter extract_card cs"
  by (induction cs arbitrary: acc) (simp_all add: List.map_filter_simps split: option.splits)

lemma map_filter_skip:
  "f c = None \<Longrightarrow> List.map_filter f (cs1 @ c # cs2) = List.map_filter f (cs1 @ cs2)"
  by (simp add: List.map_filter_def)

lemma harvest_skip:
  "extract_card c = None \<Longrightarrow> harvest (cs1 @ c # cs2) acc = harvest (cs1 @ cs2) acc"
  by (simp add: harvest_map_filter map_filter_skip)

lemma in_harvestD:
  "r \<in> set (harvest cs []) \<Longrightarrow> \<exists>c\<in>set cs. extract_card c = Some r"
  by (auto simp: harvest_map_filter List.map_filter_def)

lemma no_block_no_card:
  "(case find_elements c REVIEW_BLOCK_CLASS of
      [] \<Rightarrow> True | b # bs \<Rightarrow> find_elements b REVIEW_TEXT_CLASS = [])
   \<Longrightarrow> extract_card c = None"
  by (simp add: extract_card_def user_review_text_def find_element_def split: list.splits)

lemma extract_card_SomeD:
  assumes "extract_card c = Some r"
  shows "\<exists>body d. user_review_text c = Inr body \<and> date_loop c DATE_CLASSES = Some d \<and> d \<noteq> []
      \<and> r = \<lparr>date = d, rating = extract_rating c,
              text_field = with_services body (collect_services c), owner = extract_owner c\<rparr>"
  using assms
  by (auto simp: extract_card_def Let_def split: sum.splits option.splits if_splits)

lemma user_review_text_InrD:
  "user_review_text c = Inr body \<Longrightarrow>
   \<exists>b t. find_element c REVIEW_BLOCK_CLASS = Inr b \<and> find_element b REVIEW_TEXT_CLASS = Inr t
      \<and> body = strip (elem_text t)"
  by (auto simp: user_review_text_def split: sum.splits)

section \<open>The text gate\<close>

text \<open>
  C1, amended. The gate on the review text is the presence of the elements, not the
  content of the text. A card whose first \<^verbatim>\<open>MyEned\<close> block is missing, or has no \<^verbatim>\<open>wiI7pd\<close>
  element inside, is excluded from the harvested sequence: the result is the one obtained
  from the other cards. Every record of the output comes from a card that has both
  elements, and its text is the stripped text of that \<^verbatim>\<open>wiI7pd\<close> element, followed by the
  services suffix when services were collected. Nothing requires that text to be non-empty.
\<close>

theorem C1_review_block_gate:
  "(find_elements doc REVIEW_CONTAINER_CLASS = cs1 @ rcard # cs2 \<and>
      (case find_elements rcard REVIEW_BLOCK_CLASS of
         [] \<Rightarrow> True | b # bs \<Rightarrow> find_elements b REVIEW_TEXT_CLASS = [])
      \<longrightarrow> extract_reviews_data doc = harvest (cs1 @ cs2) [])
   \<and> (r \<in> set (extract_reviews_data doc)
      \<longrightarrow> (\<exists>c\<in>set (find_elements doc REVIEW_CONTAINER_CLASS). \<exists>b t.
             find_element c REVIEW_BLOCK_CLASS = Inr b \<and>
             find_element b REVIEW_TEXT_CLASS = Inr t \<and>
             text_field r = with_services (strip (elem_text t)) (collect_services c)))"
proof (intro conjI impI)
  assume "find_elements doc REVIEW_CONTAINER_CLASS = cs1 @ rcard # cs2 \<and>
      (case find_elements rcard REVIEW_BLOCK_CLASS of
         [] \<Rightarrow> True | b # bs \<Rightarrow> find_elements b REVIEW_TEXT_CLASS = [])"
  then show "extract_reviews_data doc = harvest (cs1 @ cs2) []"
    by (simp add: extract_reviews_data_def harvest_skip no_block_no_card)
next
  assume "r \<in> set (extract_reviews_data doc)"
  then obtain c where c: "c \<in> set (find_elements doc REVIEW_CONTAINER_CLASS)"
    and r: "extract_card c = Some r"
    unfolding extract_reviews_data_def by (blast dest: in_harvestD)
  from extract_card_SomeD[OF r] obtain body where
    body: "user_review_text c = Inr body"
    and t: "text_field r = with_services body (collect_services c)"
    by auto
  from user_review_text_InrD[OF body] t c
  show "\<exists>c\<in>set (find_elements doc REVIEW_CONTAINER_CLASS). \<exists>b t.
             find_element c REVIEW_BLOCK_CLASS = Inr b \<and>
             find_element b REVIEW_TEXT_CLASS = Inr t \<and>
             text_field r = with_services (strip (elem_text t)) (collect_services c)"
    by blast
qed

text \<open>
  C1, witness: the page of the specification's end-to-end scenario. Its second card has no
  \<^verbatim>\<open>MyEned\<close> block and is excluded; the one record comes from the first card.
\<close>

theorem C1_review_block_gate_witness:
  "find_elements doc_two_cards REVIEW_CONTAINER_CLASS = [card_full] @ card_no_text # []
   \<and> find_elements card_no_text REVIEW_BLOCK_CLASS = []
   \<and> extract_reviews_data doc_two_cards = harvest [card_full] []
   \<and> \<lparr>date = ''2 days ago'', rating = ''4/5'',
        text_field = ''Great food (Services: Delivery)'', owner = Some ''Thanks!''\<rparr>
       \<in> set (extract_reviews_data doc_two_cards)
   \<and> (\<exists>c\<in>set (find_elements doc_two_cards REVIEW_CONTAINER_CLASS). \<exists>b t.
          find_element c REVIEW_BLOCK_CLASS = Inr b \<and>
          find_element b REVIEW_TEXT_CLASS = Inr t \<and>
          ''Great food (Services: Delivery)''
            = with_services (strip (elem_text t)) (collect_services c))"
proof -
  let ?r = "\<lparr>date = ''2 days ago'', rating = ''4/5'',
        text_field = ''Great food (Services: Delivery)'', owner = Some ''Thanks!''\<rparr>"
  have cards: "find_elements doc_two_cards REVIEW_CONTAINER_CLASS = [card_full] @ card_no_text # []"
    by code_simp
  have lacks: "find_elements card_no_text REVIEW_BLOCK_CLASS = []"
    by code_simp
  have emitted: "?r \<in> set (extract_reviews_data doc_two_cards)"
    by code_simp
  note inst = C1_review_block_gate
    [of doc_two_cards "[card_full]" card_no_text "[]" ?r]
  from inst cards lacks have "extract_reviews_data doc_two_cards = harvest [card_full] []"
    by simp
  moreover from inst emitted have
    "\<exists>c\<in>set (find_elements doc_two_cards REVIEW_CONTAINER_CLASS). \<exists>b t.
          find_element c REVIEW_BLOCK_CLASS = Inr b \<and>
          find_element b REVIEW_TEXT_CLASS = Inr t \<and>
          ''Great food (Services: Delivery)''
            = with_services (strip (elem_text t)) (collect_services c)"
    by simp
  ultimately show ?thesis using cards lacks emitted by blast
qed

text \<open>
  C1, counterexample to the claim as stated: a card whose \<^verbatim>\<open>MyEned\<close> block holds a \<^verbatim>\<open>wiI7pd\<close>
  element with empty text, and which has a date, gives a record whose text is empty.
\<close>

theorem C1_empty_text_emitted:
  "extract_reviews_data doc_empty_text =
     [\<lparr>date = ''2 days ago'', rating = ''N/A'', text_field = [], owner = None\<rparr>]"
  by code_simp

section \<open>Convergent scroll loader: budget and convergence\<close>

text \<open>
  The loop invariant, for any list of indices and any starting extent \<open>l\<close>: the extents
  listed are those of a prefix of the indices, the loop is left by \<^verbatim>\<open>break\<close> only at its last
  performed iteration, and exactly at an iteration whose extent equals the one before.
\<close>

lemma scroll_loop_spec:
  "scroll_loop h js l = (hs, st) \<Longrightarrow>
     length hs \<le> length js \<and> hs = map h (take (length hs) js)
     \<and> (st \<longrightarrow> hs \<noteq> []) \<and> (\<not> st \<longrightarrow> length hs = length js)
     \<and> (\<forall>k<length hs. (st \<and> Suc k = length hs) = (hs ! k = (l # hs) ! k))"
proof (induction js arbitrary: l hs st)
  case Nil
  then show ?case by simp
next
  case (Cons i js)
  show ?case
  proof (cases "h i = l")
    case True
    with Cons.prems show ?thesis by auto
  next
    case False
    obtain hs' st' where rec: "scroll_loop h js (h i) = (hs', st')"
      by (cases "scroll_loop h js (h i)")
    with False Cons.prems have hs: "hs = h i # hs'" and st: "st = st'"
      by (auto simp: Let_def)
    note IH = Cons.IH[OF rec]
    have "\<forall>k<length hs. (st \<and> Suc k = length hs) = (hs ! k = (l # hs) ! k)"
    proof (intro allI impI)
      fix k assume k: "k < length hs"
      show "(st \<and> Suc k = length hs) = (hs ! k = (l # hs) ! k)"
      proof (cases k)
        case 0
        with False IH hs st show ?thesis by auto
      next
        case (Suc j)
        with k hs have "j < length hs'" by simp
        with IH have "(st' \<and> Suc j = length hs') = (hs' ! j = (h i # hs') ! j)" by blast
        with Suc hs st show ?thesis by simp
      qed
    qed
    with IH hs st show ?thesis by simp
  qed
qed

lemma scroll_loop_nonempty: "js \<noteq> [] \<Longrightarrow> fst (scroll_loop h js l) \<noteq> []"
  by (cases js) (auto simp: Let_def split: prod.splits)

text \<open>
  C2. For every sequence of measurements \<open>height\<close> and every integer count \<open>n\<close> the loader
  returns; \<open>hs\<close> are the extents measured by the iterations performed, so \<open>hs ! k\<close> is the
  extent after iteration \<open>k + 1\<close> and \<open>(0 # hs) ! k\<close> the extent before it, the extent before
  the loop being 0. The loader performs at least one iteration and at most
  \<open>max (n div 10 + 2) 5\<close>; it leaves the loop by \<^verbatim>\<open>break\<close> after iteration \<open>k + 1\<close> if and only
  if these two extents are equal; and when it never breaks it performs the whole budget.
  So the number of iterations is the first one whose extent repeats, or the budget when
  none does.
\<close>

theorem C2_scroll_convergence:
  "(case scroll_to_load_reviews height (Some n) of
      Inl e \<Rightarrow> False
    | Inr (hs, stopped) \<Rightarrow>
        hs \<noteq> []
        \<and> length hs \<le> nat (max (n div 10 + 2) 5)
        \<and> hs = map height [0..<length hs]
        \<and> (\<forall>k<length hs. (stopped \<and> Suc k = length hs) = (hs ! k = (0 # hs) ! k))
        \<and> (\<not> stopped \<longrightarrow> length hs = nat (max (n div 10 + 2) 5)))"
proof -
  let ?b = "nat (max (n div 10 + 2) 5)"
  obtain hs st where run: "scroll_loop height [0..<?b] 0 = (hs, st)"
    by (cases "scroll_loop height [0..<?b] 0")
  have "[0..<?b] \<noteq> []" by simp
  from scroll_loop_nonempty[OF this, of height 0] run have ne: "hs \<noteq> []" by simp
  note spec = scroll_loop_spec[OF run]
  from spec have len: "length hs \<le> ?b" by simp
  from spec have m: "hs = map height (take (length hs) [0..<?b])" by blast
  from spec have full: "\<not> st \<longrightarrow> length hs = ?b" by simp
  from spec have conv: "\<forall>k<length hs. (st \<and> Suc k = length hs) = (hs ! k = (0 # hs) ! k)"
    by blast
  from len have "take (length hs) [0..<?b] = [0..<length hs]"
    by (simp add: take_upt)
  with m have "hs = map height [0..<length hs]" by simp
  with ne len full conv run show ?thesis
    by (simp add: scroll_to_load_reviews_def batches_of_def)
qed

text \<open>
  C2, witness: extents 900, 1800, 1800 with a count of 23. The loader stops after the third
  of its five iterations, where the extent repeats, and not after the second.
\<close>

theorem C2_scroll_convergence_witness:
  "scroll_to_load_reviews (\<lambda>i. if i = 0 then 900 else 1800) (Some 23)
      = Inr ([900, 1800, 1800], True)
   \<and> [900, 1800, 1800 :: int] \<noteq> []
   \<and> length [900, 1800, 1800 :: int] \<le> nat (max (23 div 10 + 2) 5)
   \<and> ((True \<and> Suc 2 = length [900, 1800, 1800 :: int])
        = ([900, 1800, 1800 :: int] ! 2 = (0 # [900, 1800, 1800]) ! 2))
   \<and> ((True \<and> Suc 1 = length [900, 1800, 1800 :: int])
        = ([900, 1800, 1800 :: int] ! 1 = (0 # [900, 1800, 1800]) ! 1))"
proof -
  have run: "scroll_to_load_reviews (\<lambda>i. if i = 0 then 900 else 1800) (Some 23)
      = Inr ([900, 1800, 1800], True)"
    by code_simp
  from C2_scroll_convergence[where height = "\<lambda>i. if i = 0 then 900 else 1800" and n = 23] run
  have "length [900, 1800, 1800 :: int] \<le> nat (max (23 div 10 + 2) 5)"
    and "\<forall>k<length [900, 1800, 1800 :: int]. (True \<and> Suc k = length [900, 1800, 1800 :: int])
           = ([900, 1800, 1800 :: int] ! k = (0 # [900, 1800, 1800]) ! k)"
    by simp_all
  with run show ?thesis by simp
qed

text \<open>
  C3, amended. For every integer count the budget is \<open>max (n div 10 + 2) 5\<close>: it is 5 for 23
  and 5 for 0. For \<^verbatim>\<open>None\<close> no budget is computed: the division raises TypeError and the loader
  ends with it. The orchestrator calls the loader only with a count that is an integer
  other than 0.
\<close>

theorem C3_iteration_budget:
  "batches_of (Some n) = Inr (max ((n div 10) + 2) 5)
   \<and> batches_of (Some 23) = Inr 5
   \<and> batches_of (Some 0) = Inr 5
   \<and> batches_of None = Inl TypeError
   \<and> scroll_to_load_reviews height None = Inl TypeError
   \<and> (ScrollToLoadReviews hs stopped \<in> set (snd (main s))
        \<longrightarrow> (\<exists>m. m \<noteq> 0 \<and> get_total_reviews (landing s) = Inr (Some m)
                 \<and> scroll_to_load_reviews (heights s) (Some m) = Inr (hs, stopped)))"
  by (auto simp: batches_of_def scroll_to_load_reviews_def main_def truthy_def Let_def
           split: sum.splits option.splits if_splits prod.splits)


text \<open>
  C3, witness: a pass whose probe reads 23 from the second count element calls the loader
  with 23, under a budget of 5.
\<close>

theorem C3_iteration_budget_witness:
  "ScrollToLoadReviews [900, 1800, 1800] True \<in> set (snd (main session_23))
   \<and> get_total_reviews (landing session_23) = Inr (Some 23)
   \<and> scroll_to_load_reviews (heights session_23) (Some 23) = Inr ([900, 1800, 1800], True)
   \<and> batches_of (Some 23) = Inr 5"
proof -
  have ev: "ScrollToLoadReviews [900, 1800, 1800] True \<in> set (snd (main session_23))"
    by code_simp
  have probe: "get_total_reviews (landing session_23) = Inr (Some 23)"
    by code_simp
  from C3_iteration_budget[where n = 23 and height = "heights session_23"
      and hs = "[900, 1800, 1800]" and stopped = True and s = session_23] ev probe
  show ?thesis by auto
qed

text \<open>
  C3, counterexample to the claim as stated: with \<^verbatim>\<open>None\<close> for the count the budget is not 5;
  the loader raises TypeError before any iteration.
\<close>

theorem C3_none_raises:
  "batches_of None = Inl TypeError \<and> batches_of None \<noteq> Inr 5
   \<and> scroll_to_load_reviews (heights session_no_count) None = Inl TypeError"
  by (simp add: batches_of_def scroll_to_load_reviews_def)

section \<open>The date gate\<close>


lemma no_date_no_card:
  "date_loop c DATE_CLASSES = None \<or> date_loop c DATE_CLASSES = Some [] \<Longrightarrow> extract_card c = None"
  by (auto simp: extract_card_def Let_def split: sum.splits)

lemma date_loop_unresolved:
  "\<forall>cls\<in>set cs. (case find_element c cls of Inl e \<Rightarrow> True | Inr d \<Rightarrow> strip (elem_text d) = [])
   \<Longrightarrow> date_loop c cs = None \<or> date_loop c cs = Some []"
  by (induction cs) (auto split: sum.splits)




text \<open>
  C5. A card for which every date class is either not found or found with empty text is
  excluded from the harvested sequence, whatever its other fields: the result for the page
  is the one obtained from the other cards.
\<close>

theorem C5_no_date_excluded:
  assumes "find_elements doc REVIEW_CONTAINER_CLASS = cs1 @ rcard # cs2"
    and "\<forall>cls\<in>set DATE_CLASSES.
           (case find_element rcard cls of Inl e \<Rightarrow> True | Inr d \<Rightarrow> strip (elem_text d) = [])"
  shows "extract_reviews_data doc = harvest (cs1 @ cs2) []"
proof -
  from assms(2) have "extract_card rcard = None"
    by (intro no_date_no_card date_loop_unresolved)
  with assms(1) show ?thesis
    by (simp add: extract_reviews_data_def harvest_skip)
qed

text \<open>
  C5, witness: the first card of the page has review text and a rating but no date
  element; only the second card is harvested.
\<close>

theorem C5_no_date_excluded_witness:
  "find_elements doc_no_date REVIEW_CONTAINER_CLASS = [] @ card_no_date # [card_full]
   \<and> user_review_text card_no_date = Inr ''Nice place''
   \<and> extract_rating card_no_date = ''4/5''
   \<and> find_element card_no_date ''rsqaWe'' = Inl NoSuchElementException
   \<and> find_element card_no_date ''xRkPPb'' = Inl NoSuchElementException
   \<and> extract_reviews_data doc_no_date = harvest [card_full] []"
proof -
  have cards: "find_elements doc_no_date REVIEW_CONTAINER_CLASS = [] @ card_no_date # [card_full]"
    by code_simp
  have nodate: "\<forall>cls\<in>set DATE_CLASSES.
      (case find_element card_no_date cls of Inl e \<Rightarrow> True | Inr d \<Rightarrow> strip (elem_text d) = [])"
    by code_simp
  have rest: "user_review_text card_no_date = Inr ''Nice place''"
    "extract_rating card_no_date = ''4/5''"
    "find_element card_no_date ''rsqaWe'' = Inl NoSuchElementException"
    "find_element card_no_date ''xRkPPb'' = Inl NoSuchElementException"
    by code_simp+
  from C5_no_date_excluded[OF cards nodate] cards rest show ?thesis by simp
qed

section \<open>The rating\<close>

lemma is_digit_digit_char: "d < 10 \<Longrightarrow> is_digit (digit_char d)"
  by (simp add: is_digit_def digit_char_def)

lemma str_nat_digits: "str_nat n \<noteq> [] \<and> list_all is_digit (str_nat n)"
proof (induction n rule: str_nat.induct)
  case (1 n)
  show ?case
  proof (cases "n < 10")
    case True
    then show ?thesis by (subst str_nat.simps, subst str_nat.simps) (simp add: is_digit_digit_char)
  next
    case False
    with 1 have "list_all is_digit (str_nat (n div 10))" by simp
    moreover have "is_digit (digit_char (n mod 10))" by (simp add: is_digit_digit_char)
    ultimately show ?thesis using False by (subst str_nat.simps, subst str_nat.simps) simp
  qed
qed

lemma extract_rating_cases:
  "(\<exists>e. find_element rcard RATING_TEXT_CLASS = Inr e \<and> extract_rating rcard = strip (elem_text e))
   \<or> (\<exists>sc. find_element rcard RATING_TEXT_CLASS = Inl NoSuchElementException
          \<and> find_element rcard STAR_CONTAINER_CLASS = Inr sc
          \<and> extract_rating rcard
              = str_nat (length (find_elements sc FILLED_STAR_CLASS)) @ ''/5'')
   \<or> (find_element rcard RATING_TEXT_CLASS = Inl NoSuchElementException
        \<and> find_element rcard STAR_CONTAINER_CLASS = Inl NoSuchElementException
        \<and> extract_rating rcard = ''N/A'')"
proof (cases "find_elements rcard RATING_TEXT_CLASS")
  case (Cons e es)
  then show ?thesis by (simp add: extract_rating_def find_element_def)
next
  case Nil
  show ?thesis
  proof (cases "find_elements rcard STAR_CONTAINER_CLASS")
    case (Cons sc scs)
    with Nil show ?thesis by (simp add: extract_rating_def find_element_def)
  next
    case Nil': Nil
    with Nil show ?thesis by (simp add: extract_rating_def find_element_def)
  qed
qed

text \<open>
  C6, amended. The rating of every record is a string, never absent: the stripped text of
  the \<^verbatim>\<open>fzvQIb\<close> element when it is found; otherwise, when the star container is found, the
  decimal count \<open>N\<close> of its filled stars followed by \<^verbatim>\<open>/5\<close>, the denominator being the constant
  5; otherwise \<^verbatim>\<open>N/A\<close>. The rendering of a count is a non-empty string of decimal digits.
\<close>

theorem C6_rating_resolved:
  assumes "extract_card rcard = Some r"
  shows "((\<exists>e. find_element rcard RATING_TEXT_CLASS = Inr e \<and> rating r = strip (elem_text e))
     \<or> (\<exists>sc. find_element rcard RATING_TEXT_CLASS = Inl NoSuchElementException
          \<and> find_element rcard STAR_CONTAINER_CLASS = Inr sc
          \<and> rating r = str_nat (length (find_elements sc FILLED_STAR_CLASS)) @ ''/5'')
     \<or> (find_element rcard RATING_TEXT_CLASS = Inl NoSuchElementException
          \<and> find_element rcard STAR_CONTAINER_CLASS = Inl NoSuchElementException
          \<and> rating r = ''N/A''))
   \<and> str_nat k \<noteq> [] \<and> list_all is_digit (str_nat k)"
proof -
  from extract_card_SomeD[OF assms] have "rating r = extract_rating rcard" by auto
  with extract_rating_cases[of rcard] str_nat_digits[of k] show ?thesis by simp
qed

text \<open>
  C6, witness: the card of the end-to-end scenario has no direct rating and four filled
  stars; its rating is \<^verbatim>\<open>4/5\<close>.
\<close>

theorem C6_rating_resolved_witness:
  "extract_card card_full =
      Some \<lparr>date = ''2 days ago'', rating = ''4/5'',
            text_field = ''Great food (Services: Delivery)'', owner = Some ''Thanks!''\<rparr>
   \<and> find_element card_full RATING_TEXT_CLASS = Inl NoSuchElementException
   \<and> (\<exists>sc. find_element card_full STAR_CONTAINER_CLASS = Inr sc
          \<and> ''4/5'' = str_nat (length (find_elements sc FILLED_STAR_CLASS)) @ ''/5'')"
proof -
  let ?r = "\<lparr>date = ''2 days ago'', rating = ''4/5'',
            text_field = ''Great food (Services: Delivery)'', owner = Some ''Thanks!''\<rparr>"
  have a: "extract_card card_full = Some ?r" by code_simp
  have b: "find_element card_full RATING_TEXT_CLASS = Inl NoSuchElementException" by code_simp
  from C6_rating_resolved[OF a, of 0] b
  have "\<exists>sc. find_element card_full STAR_CONTAINER_CLASS = Inr sc
          \<and> ''4/5'' = str_nat (length (find_elements sc FILLED_STAR_CLASS)) @ ''/5''"
    by auto
  with a b show ?thesis by simp
qed

text \<open>
  C6, counterexample to the claim as stated: with four filled stars the rating is \<^verbatim>\<open>4/5\<close>,
  which is none of the three shapes of the specification: no direct rating exists, the
  denominator is not the number of filled stars counted, and it is not \<^verbatim>\<open>N/A\<close>.
\<close>

theorem C6_denominator_is_five:
  "extract_card card_full =
      Some \<lparr>date = ''2 days ago'', rating = ''4/5'',
            text_field = ''Great food (Services: Delivery)'', owner = Some ''Thanks!''\<rparr>
   \<and> \<not> rating_as_specified card_full ''4/5''"
  by code_simp

section \<open>The services suffix\<close>

lemma services_loop_eq:
  "services_loop es acc =
     acc @ filter (\<lambda>s. s \<noteq> [])
             (map (\<lambda>entry. strip (elem_text (hd (find_elements entry SERVICES_ENTRY_CLASS))))
                  (takeWhile (\<lambda>entry. find_elements entry SERVICES_ENTRY_CLASS \<noteq> []) es))"
proof (induction es arbitrary: acc)
  case Nil
  show ?case by simp
next
  case (Cons entry es)
  show ?case
  proof (cases "find_elements entry SERVICES_ENTRY_CLASS")
    case Nil
    then show ?thesis by (simp add: find_element_def)
  next
    case (Cons sp sps)
    then show ?thesis by (simp add: find_element_def Let_def Cons.IH)
  qed
qed

lemma join_Cons: "join sep (x # xs) = x @ concat (map (\<lambda>y. sep @ y) xs)"
  by (induction xs arbitrary: x) simp_all

text \<open>
  C7. The text of every record is the review body when no service was collected, and
  otherwise the body, a space, and \<^verbatim>\<open>(Services: a; b; c)\<close>: the services joined by a
  semicolon and a space. The services collected are none when the wrapper is missing;
  otherwise they are the non-empty stripped texts of the entries, in document order, up to
  the first entry that has no \<^verbatim>\<open>RfDO5c\<close> element. Joining puts the separator before every
  service but the first.
\<close>

theorem C7_services_suffix:
  assumes "extract_card rcard = Some r"
  shows "(\<exists>body. user_review_text rcard = Inr body \<and>
            text_field r =
              (if collect_services rcard = [] then body
               else body @ '' (Services: '' @ join ''; '' (collect_services rcard) @ '')''))
   \<and> collect_services rcard =
       (case find_element rcard SERVICES_PARENT_CLASS of
          Inl e \<Rightarrow> []
        | Inr svc_wrapper \<Rightarrow>
            filter (\<lambda>s. s \<noteq> [])
              (map (\<lambda>entry. strip (elem_text (hd (find_elements entry SERVICES_ENTRY_CLASS))))
                 (takeWhile (\<lambda>entry. find_elements entry SERVICES_ENTRY_CLASS \<noteq> [])
                    (div_children_after_first svc_wrapper))))
   \<and> join ''; '' (x # xs) = x @ concat (map (\<lambda>y. ''; '' @ y) xs)"
proof (intro conjI)
  from extract_card_SomeD[OF assms] obtain body where
    "user_review_text rcard = Inr body"
    "text_field r = with_services body (collect_services rcard)"
    by auto
  then show "\<exists>body. user_review_text rcard = Inr body \<and>
            text_field r =
              (if collect_services rcard = [] then body
               else body @ '' (Services: '' @ join ''; '' (collect_services rcard) @ '')'')"
    by (simp add: with_services_def)
next
  show "collect_services rcard =
       (case find_element rcard SERVICES_PARENT_CLASS of
          Inl e \<Rightarrow> []
        | Inr svc_wrapper \<Rightarrow>
            filter (\<lambda>s. s \<noteq> [])
              (map (\<lambda>entry. strip (elem_text (hd (find_elements entry SERVICES_ENTRY_CLASS))))
                 (takeWhile (\<lambda>entry. find_elements entry SERVICES_ENTRY_CLASS \<noteq> [])
                    (div_children_after_first svc_wrapper))))"
    by (simp add: collect_services_def services_loop_eq split: sum.splits)
next
  show "join ''; '' (x # xs) = x @ concat (map (\<lambda>y. ''; '' @ y) xs)"
    by (rule join_Cons)
qed

text \<open>C7, witness: three service entries \<^verbatim>\<open>a\<close>, \<^verbatim>\<open>b\<close>, \<^verbatim>\<open>c\<close> after the label.\<close>

theorem C7_services_suffix_witness:
  "extract_card card_three_services =
      Some \<lparr>date = ''a month ago'', rating = ''N/A'',
            text_field = ''Quick (Services: a; b; c)'', owner = None\<rparr>
   \<and> collect_services card_three_services = [''a'', ''b'', ''c'']
   \<and> user_review_text card_three_services = Inr ''Quick''
   \<and> ''Quick (Services: a; b; c)''
        = ''Quick'' @ '' (Services: '' @ join ''; '' [''a'', ''b'', ''c''] @ '')''"
proof -
  let ?r = "\<lparr>date = ''a month ago'', rating = ''N/A'',
            text_field = ''Quick (Services: a; b; c)'', owner = None\<rparr>"
  have a: "extract_card card_three_services = Some ?r" by code_simp
  have b: "collect_services card_three_services = [''a'', ''b'', ''c'']" by code_simp
  have c: "user_review_text card_three_services = Inr ''Quick''" by code_simp
  from C7_services_suffix[OF a, THEN conjunct1] b c
  have d: "''Quick (Services: a; b; c)''
        = ''Quick'' @ '' (Services: '' @ join ''; '' [''a'', ''b'', ''c''] @ '')''"
    by simp
  show ?thesis by (intro conjI a b c d)
qed

section \<open>Tab resolver: which control is clicked\<close>





section \<open>Session orchestrator: the pass without a count\<close>



lemma main_falsy:
  "get_total_reviews (landing s) = Inr v \<Longrightarrow> \<not> truthy v \<Longrightarrow>
   main s = (None, [NavigateToUrl, Print ''No reviews found.'', DriverQuit])"
  by (simp add: main_def)





text \<open>
  C10. When the probe returns the count 0, \<^verbatim>\<open>main\<close> takes the same path as for a failed probe:
  the same three events and nothing else, equal to the outcome of any pass whose probe
  returned \<^verbatim>\<open>None\<close>.
\<close>

theorem C10_zero_count_terminates:
  assumes "get_total_reviews (landing s) = Inr (Some 0)"
  shows "main s = (None, [NavigateToUrl, Print ''No reviews found.'', DriverQuit])
    \<and> (get_total_reviews (landing s') = Inr None \<longrightarrow> main s = main s')"
proof -
  from assms have m: "main s = (None, [NavigateToUrl, Print ''No reviews found.'', DriverQuit])"
    by (rule main_falsy) (simp add: truthy_def)
  have "get_total_reviews (landing s') = Inr None \<longrightarrow> main s = main s'"
  proof
    assume "get_total_reviews (landing s') = Inr None"
    then have "main s' = (None, [NavigateToUrl, Print ''No reviews found.'', DriverQuit])"
      by (rule main_falsy) (simp add: truthy_def)
    with m show "main s = main s'" by simp
  qed
  with m show ?thesis by blast
qed

text \<open>
  C10, witness: the count element reads \<^verbatim>\<open>0 reviews\<close>, so the probe succeeds with 0; the pass
  equals the one of the page without a count element.
\<close>

theorem C10_zero_count_terminates_witness:
  "get_total_reviews (landing session_zero_count) = Inr (Some 0)
   \<and> get_total_reviews (landing session_no_count) = Inr None
   \<and> main session_zero_count = (None, [NavigateToUrl, Print ''No reviews found.'', DriverQuit])
   \<and> main session_zero_count = main session_no_count"
proof -
  have a: "get_total_reviews (landing session_zero_count) = Inr (Some 0)" by code_simp
  have b: "get_total_reviews (landing session_no_count) = Inr None" by code_simp
  note inst = C10_zero_count_terminates[OF a, where s' = session_no_count]
  from inst have c: "main session_zero_count
      = (None, [NavigateToUrl, Print ''No reviews found.'', DriverQuit])"
    by (rule conjunct1)
  from inst b have d: "main session_zero_count = main session_no_count" by blast
  show ?thesis by (intro conjI a b c d)
qed

end
